theory Spec2Isabelle
  imports Main "HOL-Library.Char_ord" "HOL-Library.List_Lexorder"
begin

section \<open>The contacts relation of the SQL-backed service\<close>

text \<open>
  The table \<^verbatim>\<open>contacts\<close> of \<^verbatim>\<open>backend/server.js\<close> (\<^verbatim>\<open>initializeDatabase\<close>, lines 53-64): one
  record per row, \<^verbatim>\<open>NULL\<close> as \<open>None\<close>. The column \<^verbatim>\<open>link_precedence\<close> holds one of the two
  strings \<^verbatim>\<open>'primary'\<close> and \<^verbatim>\<open>'secondary'\<close> (its \<^verbatim>\<open>CHECK\<close> constraint). Timestamps are natural
  numbers, ids integers. The table is the list of its rows in insertion order; \<^verbatim>\<open>next_id\<close>
  is the value that the sequence behind \<^verbatim>\<open>id SERIAL\<close> hands out next. A string is a list of characters,
  each \<open>char\<close> standing for one character of the text.
\<close>

datatype precedence = Primary | Secondary

record contact =
  id_c :: int
  email :: "string option"
  phone_number :: "string option"
  linked_id :: "int option"
  link_precedence :: precedence
  created_at :: nat
  updated_at :: nat
  deleted_at :: "nat option"

record store =
  rows :: "contact list"
  next_id :: int

text \<open>The body of a successful response; the two implementations use different id types.\<close>

record ('p, 'i) response =
  primaryContactId :: 'p
  emails :: "string list"
  phoneNumbers :: "string list"
  secondaryContactIds :: "'i list"

text \<open>The two error answers of the handler: status 400 (lines 137-139) and status 500
  (lines 262-265).\<close>

datatype error = ValidationError | InternalServerError

text \<open>
  The errors with which PostgreSQL refuses a statement of the handler: a recursive
  reference inside the non-recursive term of a \<^verbatim>\<open>WITH RECURSIVE\<close> query (42P19), a string too
  long for its column (22001), a string with the character NUL, which no text value can
  hold (22021), a sequence past its maximum (2200H), a second row with the same primary key
  (23505), a reference to a row that does not exist (23503).
\<close>

datatype pg_error =
  InvalidRecursion
| StringDataRightTruncation
| CharacterNotInRepertoire
| SequenceGeneratorLimitExceeded
| UniqueViolation
| ForeignKeyViolation

subsection \<open>JavaScript and SQL primitives\<close>

text \<open>
  A request field is an optional string: \<open>None\<close> is \<^verbatim>\<open>undefined\<close> or \<^verbatim>\<open>null\<close>. JavaScript's
  truthiness of such a value: only a non-empty string is truthy.
\<close>

definition truthy :: "string option \<Rightarrow> bool" where
  "truthy v = (case v of None \<Rightarrow> False | Some s \<Rightarrow> s \<noteq> [])"

text \<open>SQL's \<^verbatim>\<open>a = b\<close> in a \<^verbatim>\<open>WHERE\<close> clause: a comparison with \<^verbatim>\<open>NULL\<close> is not true.\<close>

definition sql_eq :: "'a option \<Rightarrow> 'a option \<Rightarrow> bool" where
  "sql_eq a b = (case a of None \<Rightarrow> False | Some x \<Rightarrow> (case b of None \<Rightarrow> False | Some y \<Rightarrow> x = y))"

text \<open>\<^verbatim>\<open>xs.filter(Boolean)\<close> on a list of optional strings.\<close>

fun filter_Boolean :: "string option list \<Rightarrow> string list" where
  "filter_Boolean [] = []"
| "filter_Boolean (None # vs) = filter_Boolean vs"
| "filter_Boolean (Some s # vs) = (if s = [] then filter_Boolean vs else s # filter_Boolean vs)"

text \<open>\<^verbatim>\<open>[...new Set(xs)]\<close>: a \<^verbatim>\<open>Set\<close> iterates in insertion order, so the first occurrence of
  each value stays and later ones are dropped.\<close>

fun new_Set :: "'a list \<Rightarrow> 'a list" where
  "new_Set [] = []"
| "new_Set (x # xs) = x # new_Set (filter (\<lambda>y. y \<noteq> x) xs)"

text \<open>A statement parameter that PostgreSQL accepts as text: null, or a string without the
  character NUL.\<close>

definition pg_text :: "string option \<Rightarrow> bool" where
  "pg_text v = (case v of None \<Rightarrow> True | Some s \<Rightarrow> list_all (\<lambda>c. c \<noteq> CHR 0x00) s)"

text \<open>
  Storing a value into a column \<^verbatim>\<open>VARCHAR(n)\<close>. PostgreSQL's rule (documentation, Character
  Types): storing a longer string is an error, \<^emph>\<open>unless the excess characters are all spaces,
  in which case the string will be truncated to the maximum length\<close>, as the SQL standard
  requires.
\<close>

definition store_varchar :: "nat \<Rightarrow> string option \<Rightarrow> pg_error + string option" where
  "store_varchar n v =
     (case v of
        None \<Rightarrow> Inr None
      | Some s \<Rightarrow>
          if length s \<le> n then Inr (Some s)
          else if list_all (\<lambda>c. c = CHR '' '') (drop n s) then Inr (Some (take n s))
          else Inl StringDataRightTruncation)"

text \<open>The largest value of the sequence of a \<^verbatim>\<open>SERIAL\<close> column, a 32-bit signed integer.\<close>

definition serial_max :: int where
  "serial_max = 2147483647"

subsection \<open>The two queries\<close>

text \<open>
  \<^verbatim>\<open>findRelatedContacts\<close> (lines 86-96). \<^verbatim>\<open>ORDER BY created_at ASC\<close> is a stable sort of the
  table: rows with the same timestamp stay in table order. The query runs on the pool, so
  it reads the committed table.
\<close>

definition findRelatedContacts ::
  "contact list \<Rightarrow> string option \<Rightarrow> string option \<Rightarrow> pg_error + contact list" where
  "findRelatedContacts tbl reqEmail reqPhone =
     (if pg_text reqEmail \<and> pg_text reqPhone then
        Inr (sort_key created_at
               (filter (\<lambda>c. (sql_eq (email c) reqEmail \<or> sql_eq (phone_number c) reqPhone)
                             \<and> deleted_at c = None) tbl))
      else Inl CharacterNotInRepertoire)"

text \<open>
  \<^verbatim>\<open>findContactFamily\<close> (lines 98-129). Its statement is
  \<^verbatim>\<open>WITH RECURSIVE contact_family AS (A UNION B UNION C) SELECT ...\<close>, where \<open>A\<close> selects the
  row with the given id and both \<open>B\<close> and \<open>C\<close> join \<^verbatim>\<open>contact_family\<close>. \<^verbatim>\<open>UNION\<close> associates to
  the left, so the non-recursive term of the query is \<^verbatim>\<open>A UNION B\<close>, which refers to
  \<^verbatim>\<open>contact_family\<close>: PostgreSQL refuses the statement when it analyses it, whatever the
  argument and the table, and \<^verbatim>\<open>pool.query\<close> throws.
\<close>

definition findContactFamily :: "contact list \<Rightarrow> int \<Rightarrow> pg_error + contact list" where
  "findContactFamily tbl contactId = Inl InvalidRecursion"

subsection \<open>The statements that write\<close>

text \<open>
  The two \<^verbatim>\<open>INSERT ... RETURNING *\<close> statements (lines 154-160 and 202-212), under the
  constraints of the schema. The parameters are checked and fitted to their columns
  (\<^verbatim>\<open>VARCHAR(255)\<close>, \<^verbatim>\<open>VARCHAR(20)\<close>) before the statement runs; then the row takes the next
  value of the sequence and the defaults of the schema (\<^verbatim>\<open>created_at\<close>, \<^verbatim>\<open>updated_at\<close> the
  current timestamp, \<^verbatim>\<open>deleted_at\<close> null), and must respect \<^verbatim>\<open>PRIMARY KEY\<close> and
  \<^verbatim>\<open>REFERENCES contacts(id)\<close>. A failure comes with the store as the statement leaves it: no
  row is added, but a value taken from the sequence is not given back.
\<close>

definition insert_contact ::
  "store \<Rightarrow> nat \<Rightarrow> string option \<Rightarrow> string option \<Rightarrow> int option \<Rightarrow> precedence
     \<Rightarrow> pg_error \<times> store + contact \<times> store" where
  "insert_contact s now e p l prec =
     (if \<not> (pg_text e \<and> pg_text p) then Inl (CharacterNotInRepertoire, s)
      else case store_varchar 255 e of
        Inl err \<Rightarrow> Inl (err, s)
      | Inr e' \<Rightarrow>
          (case store_varchar 20 p of
             Inl err \<Rightarrow> Inl (err, s)
           | Inr p' \<Rightarrow>
               if serial_max < next_id s then Inl (SequenceGeneratorLimitExceeded, s)
               else
                 let c = \<lparr>id_c = next_id s, email = e', phone_number = p', linked_id = l,
                          link_precedence = prec, created_at = now, updated_at = now,
                          deleted_at = None\<rparr>;
                     drawn = s\<lparr>next_id := next_id s + 1\<rparr>
                 in if list_ex (\<lambda>r. id_c r = id_c c) (rows s) then Inl (UniqueViolation, drawn)
                    else if (case l of None \<Rightarrow> False
                             | Some target \<Rightarrow> \<not> list_ex (\<lambda>r. id_c r = target) (rows s @ [c]))
                    then Inl (ForeignKeyViolation, drawn)
                    else Inr (c, drawn\<lparr>rows := rows s @ [c]\<rparr>)))"

text \<open>\<^verbatim>\<open>UPDATE contacts SET link_precedence = 'primary', updated_at = CURRENT_TIMESTAMP WHERE id = $2\<close>
  (lines 182-185).\<close>

definition update_to_primary :: "contact list \<Rightarrow> nat \<Rightarrow> int \<Rightarrow> contact list" where
  "update_to_primary tbl now cid =
     map (\<lambda>c. if id_c c = cid then c\<lparr>link_precedence := Primary, updated_at := now\<rparr> else c) tbl"

text \<open>\<^verbatim>\<open>UPDATE contacts SET link_precedence = 'secondary', linked_id = $2, updated_at =
  CURRENT_TIMESTAMP WHERE id = $3\<close> (lines 227-230).\<close>

definition update_to_secondary :: "contact list \<Rightarrow> nat \<Rightarrow> int \<Rightarrow> int \<Rightarrow> contact list" where
  "update_to_secondary tbl now target cid =
     map (\<lambda>c. if id_c c = cid
               then c\<lparr>link_precedence := Secondary, linked_id := Some target, updated_at := now\<rparr>
               else c) tbl"

text \<open>\<^verbatim>\<open>ROLLBACK\<close> (line 254) from the store \<open>failed\<close> of the transaction to the committed store
  \<open>s\<close>: the rows are those of \<open>s\<close>; the sequence is not part of the transaction and stays.\<close>

definition rollback :: "store \<Rightarrow> store \<Rightarrow> store" where
  "rollback s failed = s\<lparr>next_id := next_id failed\<rparr>"

subsection \<open>The handler of \<^verbatim>\<open>POST /identify\<close>\<close>

text \<open>\<^verbatim>\<open>multiplePrimaries.reduce(...)\<close> (lines 221-223), called on a non-empty list: the first
  element starts as the oldest and a later one replaces it only when strictly older.\<close>

definition oldestPrimary :: "contact list \<Rightarrow> contact" where
  "oldestPrimary ps =
     foldl (\<lambda>oldest current. if created_at current < created_at oldest then current else oldest)
       (hd ps) (tl ps)"

text \<open>The loop of lines 225-232 over \<^verbatim>\<open>multiplePrimaries\<close>.\<close>

definition demote_others :: "contact list \<Rightarrow> nat \<Rightarrow> contact \<Rightarrow> contact list \<Rightarrow> contact list" where
  "demote_others tbl now oldest ps =
     foldl (\<lambda>t contact. if id_c contact = id_c oldest then t
                         else update_to_secondary t now (id_c oldest) (id_c contact)) tbl ps"

text \<open>
  Lines 174-188: the primary among the matches, or else the first match, which is updated to
  primary. The assignment \<^verbatim>\<open>primaryContact.link_precedence = 'primary'\<close> changes the object
  that is also the first element of \<^verbatim>\<open>existingContacts\<close>, so the list is returned as well,
  with the store of the transaction.
\<close>

definition choose_primary ::
  "contact list \<Rightarrow> store \<Rightarrow> nat \<Rightarrow> contact \<times> contact list \<times> store" where
  "choose_primary existingContacts tx now =
     (case find (\<lambda>c. link_precedence c = Primary) existingContacts of
        Some primaryContact \<Rightarrow> (primaryContact, existingContacts, tx)
      | None \<Rightarrow>
          (let primaryContact = hd existingContacts in
           if link_precedence primaryContact = Primary then (primaryContact, existingContacts, tx)
           else (primaryContact\<lparr>link_precedence := Primary\<rparr>,
                 primaryContact\<lparr>link_precedence := Primary\<rparr> # tl existingContacts,
                 tx\<lparr>rows := update_to_primary (rows tx) now (id_c primaryContact)\<rparr>)))"

text \<open>
  Lines 193-251, which run once \<^verbatim>\<open>findContactFamily\<close> has returned the family: the new
  secondary, the consolidation of several primaries, \<^verbatim>\<open>COMMIT\<close> and the response. A failed
  statement gives the store of the transaction at the failure.
\<close>

definition link_and_respond ::
  "store \<Rightarrow> nat \<Rightarrow> string option \<Rightarrow> string option \<Rightarrow> contact \<Rightarrow> contact list \<Rightarrow> contact list
     \<Rightarrow> pg_error \<times> store + (int, int) response \<times> store" where
  "link_and_respond tx now reqEmail reqPhone primaryContact existingContacts familyContacts =
     (let existingEmails = filter_Boolean (map email familyContacts);
          existingPhones = filter_Boolean (map phone_number familyContacts);
          newEmail = (truthy reqEmail \<and> the reqEmail \<notin> set existingEmails);
          newPhone = (truthy reqPhone \<and> the reqPhone \<notin> set existingPhones);
          needNewContact = (newEmail \<or> newPhone)
      in case (if needNewContact then
                 (case insert_contact tx now (if newEmail then reqEmail else None)
                         (if newPhone then reqPhone else None) (Some (id_c primaryContact)) Secondary of
                    Inl failure \<Rightarrow> Inl failure
                  | Inr (newSecondary, tx) \<Rightarrow> Inr (familyContacts @ [newSecondary], tx))
               else Inr (familyContacts, tx)) of
           Inl failure \<Rightarrow> Inl failure
         | Inr (familyContacts, tx) \<Rightarrow>
             (let multiplePrimaries = filter (\<lambda>c. link_precedence c = Primary) existingContacts;
                  (primaryContact, tx) =
                    (if length multiplePrimaries > 1 then
                       (let oldest = oldestPrimary multiplePrimaries
                        in (oldest, tx\<lparr>rows := demote_others (rows tx) now oldest multiplePrimaries\<rparr>))
                     else (primaryContact, tx))
              in Inr (\<lparr>primaryContactId = id_c primaryContact,
                       emails = new_Set (filter_Boolean (map email familyContacts)),
                       phoneNumbers = new_Set (filter_Boolean (map phone_number familyContacts)),
                       secondaryContactIds =
                         map id_c (filter (\<lambda>c. link_precedence c = Secondary) familyContacts)\<rparr>,
                      tx)))"

text \<open>
  The handler (lines 132-267). It returns the answer and the store as the request leaves
  it. Every statement runs inside the \<^verbatim>\<open>try\<close> of line 146: when one throws, the handler
  rolls back and answers 500. \<^verbatim>\<open>CURRENT_TIMESTAMP\<close> is the parameter \<open>now\<close>.
\<close>

definition identify ::
  "store \<Rightarrow> nat \<Rightarrow> string option \<Rightarrow> string option \<Rightarrow> (error + (int, int) response) \<times> store" where
  "identify s now reqEmail reqPhone =
     (if \<not> truthy reqEmail \<and> \<not> truthy reqPhone then (Inl ValidationError, s)
      else case findRelatedContacts (rows s) reqEmail reqPhone of
        Inl err \<Rightarrow> (Inl InternalServerError, s)
      | Inr existingContacts \<Rightarrow>
          if existingContacts = [] then
            (case insert_contact s now reqEmail reqPhone None Primary of
               Inl (err, failed) \<Rightarrow> (Inl InternalServerError, rollback s failed)
             | Inr (newContact, tx) \<Rightarrow>
                 (Inr \<lparr>primaryContactId = id_c newContact,
                       emails = (if truthy reqEmail then [the reqEmail] else []),
                       phoneNumbers = (if truthy reqPhone then [the reqPhone] else []),
                       secondaryContactIds = []\<rparr>, tx))
          else
            (let (primaryContact, existingContacts, tx) = choose_primary existingContacts s now
             in case findContactFamily (rows s) (id_c primaryContact) of
                  Inl err \<Rightarrow> (Inl InternalServerError, rollback s tx)
                | Inr familyContacts \<Rightarrow>
                    (case link_and_respond tx now reqEmail reqPhone primaryContact existingContacts
                            familyContacts of
                       Inl (err, failed) \<Rightarrow> (Inl InternalServerError, rollback s failed)
                     | Inr (body, tx) \<Rightarrow> (Inr body, tx))))"

section \<open>The document-store-backed reconciliation\<close>

text \<open>
  The collection \<^verbatim>\<open>contacts\<close> of the Firestore integration: a document per contact, typed as
  the interface \<^verbatim>\<open>FirebaseContact\<close> (\<^verbatim>\<open>integrations/firebase/models.ts\<close>); an absent field is
  \<open>None\<close>. The collection is the list of its documents in the order of their ids, which
  is the order in which a query without \<^verbatim>\<open>orderBy\<close> returns them. Timestamps are natural
  numbers; the id that \<^verbatim>\<open>addDoc\<close> generates is a parameter.
\<close>

record fb_contact =
  id_fb :: string
  email_fb :: "string option"
  phoneNumber_fb :: "string option"
  linkedId_fb :: "string option"
  linkPrecedence_fb :: precedence
  userId_fb :: string
  createdAt_fb :: nat
  updatedAt_fb :: nat

text \<open>What \<^verbatim>\<open>handleSubmit\<close> shows: one of its three error toasts, or the result it sets.\<close>

datatype submit_outcome =
  ValidationErrorToast
| AuthenticationErrorToast
| ErrorToast
| Result "(string option, string) response"

text \<open>\<^verbatim>\<open>formData.email || undefined\<close>.\<close>

definition or_undefined :: "string \<Rightarrow> string option" where
  "or_undefined v = (if v = [] then None else Some v)"

text \<open>
  \<^verbatim>\<open>FirebaseContactService.createContact\<close>, as \<^verbatim>\<open>handleSubmit\<close> calls it: with the keys
  \<^verbatim>\<open>email\<close>, \<^verbatim>\<open>phoneNumber\<close>, \<^verbatim>\<open>linkPrecedence\<close> and \<^verbatim>\<open>userId\<close>, the first two possibly
  \<^verbatim>\<open>undefined\<close>. Firestore refuses a field whose value is \<^verbatim>\<open>undefined\<close> unless the database
  was initialised with \<^verbatim>\<open>ignoreUndefinedProperties\<close>, which then leaves the field out; the
  initialisation (\<^verbatim>\<open>./config\<close>) is not part of the sources, so the setting is a parameter.
  \<open>None\<close> is the \<^verbatim>\<open>error\<close> result.
\<close>

definition createContact ::
  "bool \<Rightarrow> fb_contact list \<Rightarrow> nat \<Rightarrow> string \<Rightarrow> string option \<Rightarrow> string option \<Rightarrow> precedence \<Rightarrow> string
     \<Rightarrow> (fb_contact \<times> fb_contact list) option" where
  "createContact ignoreUndefinedProperties docs now newId e p prec uid =
     (if \<not> ignoreUndefinedProperties \<and> (e = None \<or> p = None) then None
      else
        let d = \<lparr>id_fb = newId, email_fb = e, phoneNumber_fb = p, linkedId_fb = None,
                 linkPrecedence_fb = prec, userId_fb = uid, createdAt_fb = now, updatedAt_fb = now\<rparr>
        in Some (d, insort_key id_fb d docs))"

text \<open>\<^verbatim>\<open>FirebaseContactService.updateContact\<close> with the two keys \<^verbatim>\<open>email\<close> and
  \<^verbatim>\<open>phoneNumber\<close> that \<^verbatim>\<open>handleSubmit\<close> passes.\<close>

definition updateContact ::
  "bool \<Rightarrow> fb_contact list \<Rightarrow> nat \<Rightarrow> string \<Rightarrow> string option \<Rightarrow> string option \<Rightarrow> fb_contact list option" where
  "updateContact ignoreUndefinedProperties docs now docId e p =
     (if \<not> ignoreUndefinedProperties \<and> (e = None \<or> p = None) then None
      else Some (map (\<lambda>d. if id_fb d = docId
                            then d\<lparr>email_fb := (case e of None \<Rightarrow> email_fb d | Some v \<Rightarrow> Some v),
                                   phoneNumber_fb := (case p of None \<Rightarrow> phoneNumber_fb d | Some v \<Rightarrow> Some v),
                                   updatedAt_fb := now\<rparr>
                            else d) docs))"

text \<open>\<^verbatim>\<open>FirebaseContactService.getContactsByUser\<close>: the documents of the user, by
  \<^verbatim>\<open>createdAt\<close> ascending.\<close>

definition getContactsByUser :: "fb_contact list \<Rightarrow> string \<Rightarrow> fb_contact list" where
  "getContactsByUser docs uid = sort_key createdAt_fb (filter (\<lambda>d. userId_fb d = uid) docs)"

text \<open>The body of the \<^verbatim>\<open>forEach\<close> in \<^verbatim>\<open>findRelatedContacts\<close>: push unless the id is there.\<close>

definition push_unseen :: "fb_contact list \<Rightarrow> fb_contact \<Rightarrow> fb_contact list" where
  "push_unseen allContacts contact =
     (if list_ex (\<lambda>c. id_fb c = id_fb contact) allContacts then allContacts
      else allContacts @ [contact])"

text \<open>\<^verbatim>\<open>FirebaseContactService.findRelatedContacts\<close>: the email query, then the phone query,
  each restricted to the user when a user id is given.\<close>

definition findRelatedContacts_fb ::
  "fb_contact list \<Rightarrow> string option \<Rightarrow> string option \<Rightarrow> string \<Rightarrow> fb_contact list" where
  "findRelatedContacts_fb docs e p uid =
     (let constrained = (if uid = [] then docs else filter (\<lambda>d. userId_fb d = uid) docs);
          emailDocs = (if truthy e then filter (\<lambda>d. email_fb d = e) constrained else []);
          phoneDocs = (if truthy p then filter (\<lambda>d. phoneNumber_fb d = p) constrained else [])
      in foldl push_unseen (foldl push_unseen [] emailDocs) phoneDocs)"

text \<open>
  \<^verbatim>\<open>FirebaseIdentityReconciliation.handleSubmit\<close>. The form fields are strings, empty when
  not filled in; \<open>user\<close> is the id of the signed-in user, if any. It returns the outcome and
  the collection.
\<close>

definition handleSubmit ::
  "bool \<Rightarrow> fb_contact list \<Rightarrow> nat \<Rightarrow> string \<Rightarrow> string option \<Rightarrow> string \<Rightarrow> string
     \<Rightarrow> submit_outcome \<times> fb_contact list" where
  "handleSubmit ignoreUndefinedProperties docs now newId user formEmail formPhone =
     (if formEmail = [] \<and> formPhone = [] then (ValidationErrorToast, docs)
      else case user of
        None \<Rightarrow> (AuthenticationErrorToast, docs)
      | Some uid \<Rightarrow>
          (let existingContacts =
                 findRelatedContacts_fb docs (or_undefined formEmail) (or_undefined formPhone) uid;
               written =
                 (if existingContacts = [] then
                    map_option snd
                      (createContact ignoreUndefinedProperties docs now newId
                         (or_undefined formEmail) (or_undefined formPhone) Primary uid)
                  else
                    (let existingContact = hd existingContacts
                     in updateContact ignoreUndefinedProperties docs now (id_fb existingContact)
                          (if formEmail = [] then email_fb existingContact else Some formEmail)
                          (if formPhone = [] then phoneNumber_fb existingContact else Some formPhone)))
           in case written of
                None \<Rightarrow> (ErrorToast, docs)
              | Some docs' \<Rightarrow>
                  (let allContacts = getContactsByUser docs' uid;
                       primaryContact =
                         (case find (\<lambda>c. linkPrecedence_fb c = Primary) allContacts of
                            Some c \<Rightarrow> Some c
                          | None \<Rightarrow> (case allContacts of [] \<Rightarrow> None | c # rest \<Rightarrow> Some c));
                       secondaryContacts = filter (\<lambda>c. linkPrecedence_fb c = Secondary) allContacts
                   in (Result \<lparr>primaryContactId = map_option id_fb primaryContact,
                               emails = new_Set (filter_Boolean (map email_fb allContacts)),
                               phoneNumbers = new_Set (filter_Boolean (map phoneNumber_fb allContacts)),
                               secondaryContactIds = map id_fb secondaryContacts\<rparr>, docs'))))"

section \<open>Notions used to state the properties\<close>



text \<open>
  A table and a collection hold the same contacts when, in creation order, their live
  contacts carry the same email, phone number and precedence. Two responses are the same
  when they list the same emails and phone numbers and as many secondary contacts (the ids
  themselves are numbers in one store and strings in the other).
\<close>

definition equivalent_stores :: "contact list \<Rightarrow> fb_contact list \<Rightarrow> bool" where
  "equivalent_stores tbl docs =
     (map (\<lambda>c. (email c, phone_number c, link_precedence c))
          (sort_key created_at (filter (\<lambda>c. deleted_at c = None) tbl))
      = map (\<lambda>d. (email_fb d, phoneNumber_fb d, linkPrecedence_fb d)) (sort_key createdAt_fb docs))"

definition same_response :: "(int, int) response \<Rightarrow> (string option, string) response \<Rightarrow> bool" where
  "same_response r r' =
     (emails r = emails r' \<and> phoneNumbers r = phoneNumbers r'
      \<and> length (secondaryContactIds r) = length (secondaryContactIds r'))"

subsection \<open>Example stores\<close>

text \<open>A primary with an email and an unrelated primary with a phone number, the second with a
  secondary of its own.\<close>

definition row_P1 :: contact where
  "row_P1 = \<lparr>id_c = 1, email = Some ''a@x.com'', phone_number = None, linked_id = None,
             link_precedence = Primary, created_at = 10, updated_at = 10, deleted_at = None\<rparr>"

definition row_P2 :: contact where
  "row_P2 = \<lparr>id_c = 2, email = None, phone_number = Some ''555'', linked_id = None,
             link_precedence = Primary, created_at = 20, updated_at = 20, deleted_at = None\<rparr>"

definition row_S2 :: contact where
  "row_S2 = \<lparr>id_c = 3, email = None, phone_number = Some ''777'', linked_id = Some 2,
             link_precedence = Secondary, created_at = 30, updated_at = 30, deleted_at = None\<rparr>"

definition two_families :: store where
  "two_families = \<lparr>rows = [row_P1, row_P2, row_S2], next_id = 4\<rparr>"

text \<open>A primary and its secondary, each with an email of its own.\<close>

definition row_P :: contact where
  "row_P = \<lparr>id_c = 1, email = Some ''p@x.com'', phone_number = None, linked_id = None,
            link_precedence = Primary, created_at = 10, updated_at = 10, deleted_at = None\<rparr>"

definition row_S :: contact where
  "row_S = \<lparr>id_c = 2, email = Some ''s@x.com'', phone_number = None, linked_id = Some 1,
            link_precedence = Secondary, created_at = 20, updated_at = 20, deleted_at = None\<rparr>"

definition primary_with_secondary :: store where
  "primary_with_secondary = \<lparr>rows = [row_P, row_S], next_id = 3\<rparr>"

text \<open>The same single primary contact in the table and in the collection, and an empty table.\<close>

definition one_row :: store where
  "one_row = \<lparr>rows = [row_P1], next_id = 2\<rparr>"

definition one_doc :: "fb_contact list" where
  "one_doc = [\<lparr>id_fb = ''c1'', email_fb = Some ''a@x.com'', phoneNumber_fb = None, linkedId_fb = None,
               linkPrecedence_fb = Primary, userId_fb = ''u1'', createdAt_fb = 10, updatedAt_fb = 10\<rparr>]"

definition empty_table :: store where
  "empty_table = \<lparr>rows = [], next_id = 1\<rparr>"


section \<open>Lemmas about the SQL-backed handler\<close>

subsection \<open>A request that matches a contact\<close>

lemma rollback_same_sequence: "next_id tx = next_id s \<Longrightarrow> rollback s tx = s"
  by (simp add: rollback_def)

lemma next_id_choose_primary:
  "choose_primary m s now = (pc, m', tx) \<Longrightarrow> next_id tx = next_id s"
  by (auto simp: choose_primary_def Let_def split: option.splits if_splits)

lemma identify_matched:
  assumes valid: "truthy reqEmail \<or> truthy reqPhone"
    and found: "findRelatedContacts (rows s) reqEmail reqPhone = Inr m" and ne: "m \<noteq> []"
  shows "identify s now reqEmail reqPhone = (Inl InternalServerError, s)"
proof -
  obtain pc m' tx where cp: "choose_primary m s now = (pc, m', tx)"
    by (cases "choose_primary m s now") auto
  then have "rollback s tx = s"
    by (intro rollback_same_sequence next_id_choose_primary)
  with valid found ne cp show ?thesis
    by (auto simp: identify_def findContactFamily_def)
qed

subsection \<open>What a request leaves in the table\<close>

lemma rows_rollback: "rows (rollback s failed) = rows s"
  by (simp add: rollback_def)

lemma insert_contact_rows:
  "insert_contact s now e p l prec = Inr (c, tx) \<Longrightarrow>
     rows tx = rows s @ [c] \<and> next_id tx = next_id s + 1 \<and> id_c c = next_id s
     \<and> link_precedence c = prec \<and> linked_id c = l
     \<and> store_varchar 255 e = Inr (email c) \<and> store_varchar 20 p = Inr (phone_number c)"
  by (auto simp: insert_contact_def Let_def split: sum.splits if_splits)

lemma identify_rows:
  "rows (snd (identify s now reqEmail reqPhone)) = rows s
   \<or> (\<exists>c. rows (snd (identify s now reqEmail reqPhone)) = rows s @ [c]
           \<and> link_precedence c = Primary \<and> linked_id c = None)"
proof (cases "truthy reqEmail \<or> truthy reqPhone")
  case False
  then show ?thesis by (simp add: identify_def)
next
  case valid: True
  show ?thesis
  proof (cases "findRelatedContacts (rows s) reqEmail reqPhone")
    case (Inl err)
    with valid show ?thesis by (auto simp: identify_def)
  next
    case (Inr m)
    show ?thesis
    proof (cases "m = []")
      case False
      from identify_matched [OF valid Inr False] show ?thesis by simp
    next
      case True
      show ?thesis
      proof (cases "insert_contact s now reqEmail reqPhone None Primary")
        case (Inl failure)
        with valid Inr True show ?thesis
          by (cases failure) (auto simp: identify_def rows_rollback)
      next
        case created: (Inr ok)
        obtain c tx where ok: "ok = (c, tx)" by (cases ok)
        from insert_contact_rows [OF created [unfolded ok]]
        have "rows tx = rows s @ [c]" "link_precedence c = Primary" "linked_id c = None"
          by simp_all
        moreover have "snd (identify s now reqEmail reqPhone) = tx"
          using valid Inr True created ok by (auto simp: identify_def)
        ultimately show ?thesis by simp
      qed
    qed
  qed
qed

lemma old_rows_unchanged:
  "take (length (rows s)) (rows (snd (identify s now reqEmail reqPhone))) = rows s"
proof -
  from identify_rows [of s now reqEmail reqPhone]
  consider "rows (snd (identify s now reqEmail reqPhone)) = rows s"
    | c where "rows (snd (identify s now reqEmail reqPhone)) = rows s @ [c]"
    by blast
  then show ?thesis
    by cases simp_all
qed


section \<open>Lemmas about the document-store-backed reconciliation\<close>

lemma filter_insort_key_fresh:
  "filter P xs = [] \<Longrightarrow> P x \<Longrightarrow> filter P (insort_key f x xs) = [x]"
  by (induction xs) (auto split: if_splits)

lemma no_related_docs:
  assumes "uid \<noteq> []" and "filter (\<lambda>d. userId_fb d = uid) docs = []"
  shows "findRelatedContacts_fb docs e p uid = []"
  using assms by (simp add: findRelatedContacts_fb_def)

section \<open>The properties of the specification\<close>

subsection \<open>Merging two families\<close>

text \<open>
  C1. The specification asks that a request bridging two independent primaries leaves the
  earlier one as the only primary, the other demoted and linked to it, and answers for the
  merged family. On \<open>two_families\<close> the request (a@x.com, 555) matches the primaries 1 and 2;
  the handler then calls \<^verbatim>\<open>findContactFamily\<close>, whose statement PostgreSQL refuses, rolls back
  and answers 500: both contacts stay primary and there is no response body.
\<close>

theorem merge_request_fails:
  "identify two_families 40 (Some ''a@x.com'') (Some ''555'') = (Inl InternalServerError, two_families)"
  by code_simp

subsection \<open>Links lead to primaries\<close>



subsection \<open>Promotion\<close>

text \<open>
  C3. A contact that is secondary before a call is secondary after it. (When no matched
  contact is primary the handler does update the first match to primary, lines 182-185, but
  the call then fails and the update is rolled back.)
\<close>

theorem secondary_stays_secondary:
  assumes "i < length (rows s)" and "link_precedence (rows s ! i) = Secondary"
  shows "link_precedence (rows (snd (identify s now reqEmail reqPhone)) ! i) = Secondary"
proof -
  have "rows (snd (identify s now reqEmail reqPhone)) ! i
      = take (length (rows s)) (rows (snd (identify s now reqEmail reqPhone))) ! i"
    using assms(1) by simp
  also have "\<dots> = rows s ! i"
    by (simp only: old_rows_unchanged)
  finally show ?thesis
    using assms(2) by simp
qed

theorem secondary_stays_secondary_witness:
  "1 < length (rows primary_with_secondary)
   \<and> link_precedence (rows primary_with_secondary ! 1) = Secondary
   \<and> link_precedence (rows (snd (identify primary_with_secondary 40 (Some ''s@x.com'') None)) ! 1)
       = Secondary"
proof -
  have h1: "1 < length (rows primary_with_secondary)"
    by code_simp
  have h2: "link_precedence (rows primary_with_secondary ! 1) = Secondary"
    by code_simp
  from secondary_stays_secondary [OF h1 h2, of 40 "Some ''s@x.com''" None] h1 h2
  show ?thesis
    by blast
qed

subsection \<open>Validation\<close>

text \<open>
  C4. When both the email and the phone number of a request are absent or empty, the
  handler answers with the validation error and the table is exactly what it was.
\<close>

theorem identify_rejects_empty_request:
  assumes "reqEmail = None \<or> reqEmail = Some ''''"
    and "reqPhone = None \<or> reqPhone = Some ''''"
  shows "identify s now reqEmail reqPhone = (Inl ValidationError, s)"
  using assms by (auto simp: identify_def truthy_def)

theorem identify_rejects_empty_request_witness:
  "identify two_families 40 None (Some '''') = (Inl ValidationError, two_families)"
  using identify_rejects_empty_request [of None "Some ''''" two_families 40] by simp

subsection \<open>New information\<close>

text \<open>
  C5. The specification asks that a request which matches a contact and brings an email or
  a phone number that the family does not have creates exactly one secondary contact. On
  \<open>primary_with_secondary\<close> the request (p@x.com, 999) matches the primary 1 and brings a
  phone number that no contact has; the handler fails in \<^verbatim>\<open>findContactFamily\<close>, before the
  check of lines 193-198, answers 500 and inserts nothing.
\<close>

theorem new_fragment_request_fails:
  "findRelatedContacts (rows primary_with_secondary) (Some ''p@x.com'') (Some ''999'') = Inr [row_P]
   \<and> identify primary_with_secondary 40 (Some ''p@x.com'') (Some ''999'')
       = (Inl InternalServerError, primary_with_secondary)"
  by code_simp

subsection \<open>Repeating a request\<close>

text \<open>
  C6. The specification asks that a second identical request returns the same primary as
  the first. On the empty table the request (a@x.com, 555) creates the primary 1 and
  answers with it; the same request again matches that contact, fails in
  \<^verbatim>\<open>findContactFamily\<close> and answers 500 instead of the primary 1 (the table stays as the first
  call left it).
\<close>

theorem repeated_request_fails:
  "fst (identify empty_table 40 (Some ''a@x.com'') (Some ''555'')) =
     Inr \<lparr>primaryContactId = 1, emails = [''a@x.com''], phoneNumbers = [''555''],
          secondaryContactIds = []\<rparr>
   \<and> identify (snd (identify empty_table 40 (Some ''a@x.com'') (Some ''555''))) 50
        (Some ''a@x.com'') (Some ''555'')
       = (Inl InternalServerError, snd (identify empty_table 40 (Some ''a@x.com'') (Some ''555'')))"
  by code_simp

subsection \<open>The content of a successful response\<close>




subsection \<open>The two backends\<close>

text \<open>
  C8, as the specification states it (the two implementations give the same response from
  equivalent stores), fails. The table \<open>one_row\<close> and the collection \<open>one_doc\<close> hold the same
  single primary contact, and the request (b@x.com, 999) matches nothing in either. Both
  create a primary contact, and the stores stay equivalent; but the SQL handler answers
  with the new contact and its email alone, the document-store handler with the oldest
  primary of the user and the emails of all the user's contacts.
\<close>

theorem backends_differ_counterexample:
  "equivalent_stores (rows one_row) one_doc
   \<and> fst (identify one_row 40 (Some ''b@x.com'') (Some ''999'')) =
       Inr \<lparr>primaryContactId = 2, emails = [''b@x.com''], phoneNumbers = [''999''],
            secondaryContactIds = []\<rparr>
   \<and> fst (handleSubmit False one_doc 40 ''c2'' (Some ''u1'') ''b@x.com'' ''999'') =
       Result \<lparr>primaryContactId = Some ''c1'', emails = [''a@x.com'', ''b@x.com''],
               phoneNumbers = [''999''], secondaryContactIds = []\<rparr>
   \<and> \<not> same_response
         \<lparr>primaryContactId = 2, emails = [''b@x.com''], phoneNumbers = [''999''],
          secondaryContactIds = []\<rparr>
         \<lparr>primaryContactId = Some ''c1'', emails = [''a@x.com'', ''b@x.com''],
          phoneNumbers = [''999''], secondaryContactIds = []\<rparr>
   \<and> equivalent_stores (rows (snd (identify one_row 40 (Some ''b@x.com'') (Some ''999''))))
         (snd (handleSubmit False one_doc 40 ''c2'' (Some ''u1'') ''b@x.com'' ''999''))"
  by code_simp

text \<open>
  C8, amended. The two implementations agree when a fresh contact is created, from a
  request with both fields, for a user who has no contact yet: if the email has at most 255
  and the phone number at most 20 characters, no row of the table matches the request, the
  sequence has an unused id to give, and the signed-in user has no document in the
  collection, then each creates one primary contact that carries the email and the phone
  number, and each responds with that contact as primary, the one email, the one phone
  number and no secondary contact.
\<close>

theorem backends_agree_on_fresh_contact:
  assumes present: "formEmail \<noteq> []" "formPhone \<noteq> []"
    and fits: "length formEmail \<le> 255" "length formPhone \<le> 20"
    and no_row: "findRelatedContacts (rows s) (Some formEmail) (Some formPhone) = Inr []"
    and seq: "next_id s \<le> serial_max" "\<not> list_ex (\<lambda>r. id_c r = next_id s) (rows s)"
    and uid: "uid \<noteq> []"
    and no_doc: "filter (\<lambda>d. userId_fb d = uid) docs = []"
  shows "identify s now (Some formEmail) (Some formPhone) =
           (Inr \<lparr>primaryContactId = next_id s, emails = [formEmail], phoneNumbers = [formPhone],
                 secondaryContactIds = []\<rparr>,
            \<lparr>rows = rows s @ [\<lparr>id_c = next_id s, email = Some formEmail,
                                phone_number = Some formPhone, linked_id = None,
                                link_precedence = Primary, created_at = now, updated_at = now,
                                deleted_at = None\<rparr>],
             next_id = next_id s + 1\<rparr>)
       \<and> handleSubmit ignoreUndefinedProperties docs now newId (Some uid) formEmail formPhone =
           (Result \<lparr>primaryContactId = Some newId, emails = [formEmail], phoneNumbers = [formPhone],
                    secondaryContactIds = []\<rparr>,
            insort_key id_fb \<lparr>id_fb = newId, email_fb = Some formEmail,
                               phoneNumber_fb = Some formPhone, linkedId_fb = None,
                               linkPrecedence_fb = Primary, userId_fb = uid, createdAt_fb = now,
                               updatedAt_fb = now\<rparr> docs)"
proof
  have text_ok: "pg_text (Some formEmail) \<and> pg_text (Some formPhone)"
    using no_row by (auto simp: findRelatedContacts_def split: if_splits)
  have "insert_contact s now (Some formEmail) (Some formPhone) None Primary =
      Inr (\<lparr>id_c = next_id s, email = Some formEmail, phone_number = Some formPhone,
             linked_id = None, link_precedence = Primary, created_at = now, updated_at = now,
             deleted_at = None\<rparr>,
           \<lparr>rows = rows s @ [\<lparr>id_c = next_id s, email = Some formEmail,
                               phone_number = Some formPhone, linked_id = None,
                               link_precedence = Primary, created_at = now, updated_at = now,
                               deleted_at = None\<rparr>],
            next_id = next_id s + 1\<rparr>)"
    using text_ok fits seq by (simp add: insert_contact_def store_varchar_def Let_def)
  then show "identify s now (Some formEmail) (Some formPhone) =
           (Inr \<lparr>primaryContactId = next_id s, emails = [formEmail], phoneNumbers = [formPhone],
                 secondaryContactIds = []\<rparr>,
            \<lparr>rows = rows s @ [\<lparr>id_c = next_id s, email = Some formEmail,
                                phone_number = Some formPhone, linked_id = None,
                                link_precedence = Primary, created_at = now, updated_at = now,
                                deleted_at = None\<rparr>],
             next_id = next_id s + 1\<rparr>)"
    using present no_row by (simp add: identify_def truthy_def)
next
  let ?d = "\<lparr>id_fb = newId, email_fb = Some formEmail, phoneNumber_fb = Some formPhone,
             linkedId_fb = None, linkPrecedence_fb = Primary, userId_fb = uid, createdAt_fb = now,
             updatedAt_fb = now\<rparr>"
  have all: "getContactsByUser (insort_key id_fb ?d docs) uid = [?d]"
    unfolding getContactsByUser_def
    by (subst filter_insort_key_fresh [OF no_doc]) simp_all
  show "handleSubmit ignoreUndefinedProperties docs now newId (Some uid) formEmail formPhone =
           (Result \<lparr>primaryContactId = Some newId, emails = [formEmail], phoneNumbers = [formPhone],
                    secondaryContactIds = []\<rparr>,
            insort_key id_fb ?d docs)"
    using present
    by (simp add: handleSubmit_def no_related_docs [OF uid no_doc] or_undefined_def
        createContact_def Let_def all)
qed

theorem backends_agree_on_fresh_contact_witness:
  "identify empty_table 40 (Some ''a@x.com'') (Some ''555'') =
     (Inr \<lparr>primaryContactId = 1, emails = [''a@x.com''], phoneNumbers = [''555''],
           secondaryContactIds = []\<rparr>,
      \<lparr>rows = [\<lparr>id_c = 1, email = Some ''a@x.com'', phone_number = Some ''555'', linked_id = None,
                 link_precedence = Primary, created_at = 40, updated_at = 40, deleted_at = None\<rparr>],
       next_id = 2\<rparr>)
   \<and> handleSubmit False [] 40 ''c1'' (Some ''u1'') ''a@x.com'' ''555'' =
     (Result \<lparr>primaryContactId = Some ''c1'', emails = [''a@x.com''], phoneNumbers = [''555''],
              secondaryContactIds = []\<rparr>,
      [\<lparr>id_fb = ''c1'', email_fb = Some ''a@x.com'', phoneNumber_fb = Some ''555'',
        linkedId_fb = None, linkPrecedence_fb = Primary, userId_fb = ''u1'', createdAt_fb = 40,
        updatedAt_fb = 40\<rparr>])"
proof -
  have no_row: "findRelatedContacts (rows empty_table) (Some ''a@x.com'') (Some ''555'') = Inr []"
    by code_simp
  have seq: "next_id empty_table \<le> serial_max"
    "\<not> list_ex (\<lambda>r. id_c r = next_id empty_table) (rows empty_table)"
    by code_simp+
  have no_doc: "filter (\<lambda>d. userId_fb d = ''u1'') [] = []"
    by simp
  have e: "next_id empty_table = 1" "rows empty_table = []"
    by (simp_all add: empty_table_def)
  from backends_agree_on_fresh_contact [where s = empty_table and now = 40 and docs = "[]"
      and uid = "''u1''" and newId = "''c1''" and ignoreUndefinedProperties = False
      and formEmail = "''a@x.com''" and formPhone = "''555''",
      OF _ _ _ _ no_row seq _ no_doc]
  show ?thesis
    unfolding e by simp
qed

subsection \<open>The columns that identify a contact\<close>

text \<open>
  C10. The handler never changes the email or the phone number of a stored contact: after
  any request the rows that were in the table are still there, in place, with the same
  \<open>id\<close>, \<open>email\<close>, \<open>phone_number\<close>, \<open>created_at\<close> and \<open>deleted_at\<close>; its updates assign only
  \<open>link_precedence\<close>, \<open>linked_id\<close> and \<open>updated_at\<close>.
\<close>

theorem identify_keeps_identity_columns:
  "map id_c (take (length (rows s)) (rows (snd (identify s now reqEmail reqPhone)))) = map id_c (rows s)
   \<and> map email (take (length (rows s)) (rows (snd (identify s now reqEmail reqPhone))))
       = map email (rows s)
   \<and> map phone_number (take (length (rows s)) (rows (snd (identify s now reqEmail reqPhone))))
       = map phone_number (rows s)
   \<and> map created_at (take (length (rows s)) (rows (snd (identify s now reqEmail reqPhone))))
       = map created_at (rows s)
   \<and> map deleted_at (take (length (rows s)) (rows (snd (identify s now reqEmail reqPhone))))
       = map deleted_at (rows s)"
  by (simp only: old_rows_unchanged)

end
